theory Spec2Isabelle
  imports Complex_Main
begin

section \<open>Numbers\<close>

text \<open>
  The program computes with JavaScript numbers. They are modelled as mathematical reals:
  rounding, overflow to Infinity and NaN are outside the model, and a division whose
  divisor is zero is excluded by hypothesis wherever a theorem depends on its value.
  Two places go further. In the path simulators the NaN of the square root of a negative
  number is a value of the model (\<open>None\<close>). In the risk engine the exception of the
  histogram step is a result of the model, and the floored index is a parameter, since
  rounding decides it.
\<close>

section \<open>Normal CDF (BlackScholesModel.tsx, BinomialOptionPricingModel.tsx)\<close>

text \<open>
  \<^verbatim>\<open>
  const normalCDF = (x: number): number => {
      const t = 1 / (1 + 0.2316419 * Math.abs(x));
      const d = 0.3989423 * Math.exp(-x * x / 2);
      const prob = d * t * (0.3193815 + t * (-0.3565638 + t * (1.781478 + t * (-1.821256 + t * 1.330274))));
      return x > 0 ? 1 - prob : prob;
  };
  \<close>
  The two files hold the same text.
\<close>

definition normalCDF_t :: "real \<Rightarrow> real" where
  "normalCDF_t x = 1 / (1 + 0.2316419 * \<bar>x\<bar>)"

definition normalCDF_d :: "real \<Rightarrow> real" where
  "normalCDF_d x = 0.3989423 * exp (- x * x / 2)"

definition normalCDF_prob :: "real \<Rightarrow> real" where
  "normalCDF_prob x =
     (let t = normalCDF_t x; d = normalCDF_d x
      in d * t * (0.3193815 + t * (- 0.3565638 + t * (1.781478 + t * (- 1.821256 + t * 1.330274)))))"

definition normalCDF :: "real \<Rightarrow> real" where
  "normalCDF x = (if x > 0 then 1 - normalCDF_prob x else normalCDF_prob x)"

section \<open>Closed-form pricer\<close>

text \<open>
  The \<^verbatim>\<open>useMemo\<close> of \<^verbatim>\<open>BlackScholesModel\<close> that computes
  \<^verbatim>\<open>{ callPrice, putPrice }\<close> from the sliders \<^verbatim>\<open>S, K, T, r, sigma\<close>;
  \<^verbatim>\<open>r\<close> and \<^verbatim>\<open>sigma\<close> arrive in percent.
\<close>

record prices =
  callPrice :: real
  putPrice :: real

definition bs_d1 :: "real \<Rightarrow> real \<Rightarrow> real \<Rightarrow> real \<Rightarrow> real \<Rightarrow> real" where
  "bs_d1 S K T r sigma = (ln (S / K) + (r + 0.5 * sigma ^ 2) * T) / (sigma * sqrt T)"

definition bs_d2 :: "real \<Rightarrow> real \<Rightarrow> real \<Rightarrow> real \<Rightarrow> real \<Rightarrow> real" where
  "bs_d2 S K T r sigma = bs_d1 S K T r sigma - sigma * sqrt T"

definition BlackScholesModel_price :: "real \<Rightarrow> real \<Rightarrow> real \<Rightarrow> real \<Rightarrow> real \<Rightarrow> prices" where
  "BlackScholesModel_price S K T r sigma =
     (let rDecimal = r / 100; sigmaDecimal = sigma / 100
      in if T \<le> 0 \<or> sigmaDecimal \<le> 0 then \<lparr>callPrice = 0, putPrice = 0\<rparr>
         else
           (let d1 = bs_d1 S K T rDecimal sigmaDecimal;
                d2 = bs_d2 S K T rDecimal sigmaDecimal
            in \<lparr>callPrice = S * normalCDF d1 - K * exp (- rDecimal * T) * normalCDF d2,
                putPrice = K * exp (- rDecimal * T) * normalCDF (- d2) - S * normalCDF (- d1)\<rparr>))"

text \<open>
  \<^verbatim>\<open>blackScholesCall\<close> of BinomialOptionPricingModel.tsx, the comparison price of the
  lattice; \<^verbatim>\<open>r\<close> and \<^verbatim>\<open>sigma\<close> arrive as decimals.
\<close>

definition blackScholesCall :: "real \<Rightarrow> real \<Rightarrow> real \<Rightarrow> real \<Rightarrow> real \<Rightarrow> real" where
  "blackScholesCall S K T r sigma =
     (if T \<le> 0 \<or> sigma \<le> 0 then max 0 (S - K * exp (- r * T))
      else S * normalCDF (bs_d1 S K T r sigma) - K * exp (- r * T) * normalCDF (bs_d2 S K T r sigma))"

section \<open>Lattice pricer (BinomialOptionPricingModel.tsx)\<close>

text \<open>
  \<^verbatim>\<open>
  const calculateBinomialPrice = (S, K, T, r, sigma, steps) => {
      const dt = T / steps;
      const u = Math.exp(sigma * Math.sqrt(dt));
      const d = 1 / u;
      const p = (Math.exp(r * dt) - d) / (u - d);
      if (p < 0 || p > 1) return 0; // No arbitrage condition violated
      const prices = new Array(steps + 1);
      for (let i = 0; i <= steps; i++) {
          prices[i] = Math.max(0, S * (u ** (steps - i)) * (d ** i) - K);
      }
      for (let j = steps - 1; j >= 0; j--) {
          for (let i = 0; i <= j; i++) {
              prices[i] = (p * prices[i] + (1 - p) * prices[i + 1]) * Math.exp(-r * dt);
          }
      }
      return prices[0];
  };
  \<close>
  The step count is a natural number. The array is a list of length \<open>steps + 1\<close>
  that the loops update in place by index; every index they touch is in range.
\<close>

definition crr_dt :: "real \<Rightarrow> nat \<Rightarrow> real" where
  "crr_dt T steps = T / real steps"

definition crr_u :: "real \<Rightarrow> real \<Rightarrow> nat \<Rightarrow> real" where
  "crr_u sigma T steps = exp (sigma * sqrt (crr_dt T steps))"

definition crr_d :: "real \<Rightarrow> real \<Rightarrow> nat \<Rightarrow> real" where
  "crr_d sigma T steps = 1 / crr_u sigma T steps"

definition crr_p :: "real \<Rightarrow> real \<Rightarrow> real \<Rightarrow> nat \<Rightarrow> real" where
  "crr_p T r sigma steps =
     (exp (r * crr_dt T steps) - crr_d sigma T steps) / (crr_u sigma T steps - crr_d sigma T steps)"

definition payoff_loop :: "real \<Rightarrow> real \<Rightarrow> real \<Rightarrow> real \<Rightarrow> nat \<Rightarrow> real list \<Rightarrow> real list" where
  "payoff_loop S K u d steps prices =
     fold (\<lambda>i ps. ps[i := max 0 (S * u ^ (steps - i) * d ^ i - K)]) [0..<steps + 1] prices"

definition induction_inner :: "real \<Rightarrow> real \<Rightarrow> nat \<Rightarrow> real list \<Rightarrow> real list" where
  "induction_inner p disc j prices =
     fold (\<lambda>i ps. ps[i := (p * ps ! i + (1 - p) * ps ! (i + 1)) * disc]) [0..<j + 1] prices"

definition induction_outer :: "real \<Rightarrow> real \<Rightarrow> nat \<Rightarrow> real list \<Rightarrow> real list" where
  "induction_outer p disc steps prices = fold (induction_inner p disc) (rev [0..<steps]) prices"

definition calculateBinomialPrice :: "real \<Rightarrow> real \<Rightarrow> real \<Rightarrow> real \<Rightarrow> real \<Rightarrow> nat \<Rightarrow> real" where
  "calculateBinomialPrice S K T r sigma steps =
     (let dt = crr_dt T steps;
          u = crr_u sigma T steps;
          d = crr_d sigma T steps;
          p = crr_p T r sigma steps
      in if p < 0 \<or> p > 1 then 0
         else
           (let prices = payoff_loop S K u d steps (replicate (steps + 1) 0);
                prices = induction_outer p (exp (- r * dt)) steps prices
            in prices ! 0))"

text \<open>
  The procedure of the specification, on layers that shrink by one node per step:
  terminal payoffs, then each layer from its successor by the discounted weighted average
  of the two children, with no comparison against an exercise value.
\<close>

definition spec_terminal :: "real \<Rightarrow> real \<Rightarrow> real \<Rightarrow> real \<Rightarrow> nat \<Rightarrow> real list" where
  "spec_terminal S K u d n = map (\<lambda>i. max 0 (S * u ^ (n - i) * d ^ i - K)) [0..<n + 1]"

fun spec_layer :: "real \<Rightarrow> real \<Rightarrow> real list \<Rightarrow> real list" where
  "spec_layer p disc (child_up # child_down # rest) =
     disc * (p * child_up + (1 - p) * child_down) # spec_layer p disc (child_down # rest)"
| "spec_layer p disc rest = []"

definition spec_lattice_price :: "real \<Rightarrow> real \<Rightarrow> real \<Rightarrow> real \<Rightarrow> real \<Rightarrow> nat \<Rightarrow> real" where
  "spec_lattice_price S K T r sigma n =
     hd ((spec_layer (crr_p T r sigma n) (exp (- r * crr_dt T n)) ^^ n)
           (spec_terminal S K (crr_u sigma T n) (crr_d sigma T n) n))"

section \<open>Risk engine (VaRCVaRModel.tsx)\<close>

text \<open>
  \<^verbatim>\<open>normalInverseCDF\<close>, with the constants of the source.
\<close>

definition nicdf_tail :: "real \<Rightarrow> real" where
  "nicdf_tail q =
     (((((- 0.007784894002430293 * q + - 0.3223964580411365) * q + - 2.400758277161838) * q
         + - 2.549732539343734) * q + 4.374664141464968) * q + 2.938163982698783) /
     ((((0.007784695709041462 * q + 0.3224671290700398) * q + 2.445134137142996) * q
         + 3.754408661907416) * q + 1)"

definition nicdf_central :: "real \<Rightarrow> real" where
  "nicdf_central q =
     (let r = q * q
      in (((((- 39.69683028665376 * r + 220.9460984245205) * r + - 275.9285104469687) * r
            + 138.3577518672690) * r + - 30.66479806614716) * r + 2.506628277459239) * q /
         (((((- 54.47609879822406 * r + 161.5858368580409) * r + - 155.6989798598866) * r
            + 66.80131188771972) * r + - 13.28068155288572) * r + 1))"

definition normalInverseCDF :: "real \<Rightarrow> real" where
  "normalInverseCDF p =
     (let p_low = 0.02425; p_high = 1 - p_low
      in if p < p_low then nicdf_tail (sqrt (- 2 * ln p))
         else if p \<le> p_high then nicdf_central (p - 0.5)
         else - nicdf_tail (sqrt (- 2 * ln (1 - p))))"

text \<open>
  The \<^verbatim>\<open>useMemo\<close> of \<^verbatim>\<open>VaRCVaRModel\<close>:
  \<^verbatim>\<open>
  dailyReturns.sort((a, b) => a - b);
  const alpha = 1 - confidence / 100;
  const varIndex = Math.floor(alpha * dailyReturns.length);
  const historicalVaR = -dailyReturns[varIndex] * Math.sqrt(horizon);
  const losses = dailyReturns.slice(0, varIndex);
  const historicalCVaR = losses.length > 0
      ? -losses.reduce((a, b) => a + b, 0) / losses.length * Math.sqrt(horizon) : 0;
  const mean = dailyReturns.reduce((a, b) => a + b, 0) / dailyReturns.length;
  const variance = dailyReturns.reduce((acc, val) => acc + (val - mean)**2, 0) / (dailyReturns.length - 1);
  const stdDev = Math.sqrt(variance);
  const parametricVaR = -(mean + stdDev * normalInverseCDF(alpha)) * Math.sqrt(horizon);
  const parametricCVaR = alpha**-1 * stdDev * (1/(Math.sqrt(2*Math.PI)))
      * Math.exp(-(normalInverseCDF(alpha)**2)/2) * Math.sqrt(horizon);
  const minReturn = Math.min(...dailyReturns);
  const maxReturn = Math.max(...dailyReturns);
  const numBins = 20;
  const binWidth = (maxReturn - minReturn) / numBins;
  const bins = Array(numBins).fill(0).map((_, i) => ({ range: minReturn + i * binWidth, count: 0 }));
  dailyReturns.forEach(r => {
      const binIndex = Math.min(numBins - 1, Math.floor((r - minReturn) / binWidth));
      bins[binIndex].count++;
  });
  return { returns: dailyReturns, histVaR: historicalVaR, histCVaR: historicalCVaR,
           paraVaR: parametricVaR, paraCVaR: parametricCVaR, histData: bins };
  \<close>
  The price table \<^verbatim>\<open>SP500_DATA\<close> is a parameter; \<^verbatim>\<open>confidence\<close> arrives in
  percent. \<^verbatim>\<open>reduce((a, b) => a + b, 0)\<close> is a left fold.

  \<^verbatim>\<open>Math.floor\<close> is not continuous, so the rounding of the product
  \<^verbatim>\<open>alpha * dailyReturns.length\<close> decides its value: at \<^verbatim>\<open>confidence = 90\<close> the
  machine's \<^verbatim>\<open>alpha\<close> is \<open>0.09999999999999998\<close> and ten returns give the index
  \<open>0\<close>, where the exact product \<open>1\<close> would give \<open>1\<close>. The model does not compute
  the index: \<open>varIndex\<close> is a parameter that stands for the value the program computes,
  and the theorems hold for every index below the number of returns.

  The histogram step can throw: \<^verbatim>\<open>bins[binIndex]\<close> is \<^verbatim>\<open>undefined\<close> when
  \<^verbatim>\<open>binIndex\<close> is not one of \<open>0, ..., 19\<close>, and reading \<^verbatim>\<open>count\<close> of it is a
  \<^verbatim>\<open>TypeError\<close>. With \<^verbatim>\<open>binWidth = 0\<close> the quotient is \<open>0 / 0\<close>, that is NaN, for
  a return equal to \<^verbatim>\<open>minReturn\<close>, positive infinity for a larger one (and the index
  is \<open>19\<close>) and negative infinity for a smaller one. A bin \<^verbatim>\<open>{ range, count }\<close> is a
  pair. The series has at least two returns wherever a theorem speaks of the result.
\<close>

definition log_returns :: "real list \<Rightarrow> real list" where
  "log_returns data = map (\<lambda>i. ln (data ! i / data ! (i - 1))) [1..<length data]"

definition reduce_sum :: "real list \<Rightarrow> real" where
  "reduce_sum xs = foldl (\<lambda>a b. a + b) 0 xs"

definition reduce_sq_dev :: "real \<Rightarrow> real list \<Rightarrow> real" where
  "reduce_sq_dev mean xs = foldl (\<lambda>acc val. acc + (val - mean) ^ 2) 0 xs"

datatype error = TypeError

type_synonym bin = "real \<times> nat"

record risk =
  risk_returns :: "real list"
  histVaR :: real
  histCVaR :: real
  paraVaR :: real
  paraCVaR :: real
  histData :: "bin list"

definition historicalVaR :: "nat \<Rightarrow> real \<Rightarrow> real list \<Rightarrow> real" where
  "historicalVaR varIndex horizon dailyReturns = - (dailyReturns ! varIndex) * sqrt horizon"

definition historicalCVaR :: "nat \<Rightarrow> real \<Rightarrow> real list \<Rightarrow> real" where
  "historicalCVaR varIndex horizon dailyReturns =
     (let losses = take varIndex dailyReturns
      in if length losses > 0
         then - reduce_sum losses / real (length losses) * sqrt horizon
         else 0)"

definition sample_mean :: "real list \<Rightarrow> real" where
  "sample_mean dailyReturns = reduce_sum dailyReturns / real (length dailyReturns)"

definition sample_stdDev :: "real list \<Rightarrow> real" where
  "sample_stdDev dailyReturns =
     sqrt (reduce_sq_dev (sample_mean dailyReturns) dailyReturns / (real (length dailyReturns) - 1))"

definition parametricVaR :: "real \<Rightarrow> real \<Rightarrow> real list \<Rightarrow> real" where
  "parametricVaR alpha horizon dailyReturns =
     - (sample_mean dailyReturns + sample_stdDev dailyReturns * normalInverseCDF alpha) * sqrt horizon"

definition parametricCVaR :: "real \<Rightarrow> real \<Rightarrow> real list \<Rightarrow> real" where
  "parametricCVaR alpha horizon dailyReturns =
     inverse alpha * sample_stdDev dailyReturns * (1 / sqrt (2 * pi))
       * exp (- ((normalInverseCDF alpha) ^ 2) / 2) * sqrt horizon"

definition binIndex :: "real \<Rightarrow> real \<Rightarrow> real \<Rightarrow> int option" where
  "binIndex minReturn binWidth r =
     (if binWidth = 0
      then (if r - minReturn > 0 then Some 19 else None)
      else Some (min 19 \<lfloor>(r - minReturn) / binWidth\<rfloor>))"

definition count_step :: "real \<Rightarrow> real \<Rightarrow> real \<Rightarrow> bin list \<Rightarrow> error + bin list" where
  "count_step minReturn binWidth r bins =
     (case binIndex minReturn binWidth r of
        None \<Rightarrow> Inl TypeError
      | Some i \<Rightarrow>
          if 0 \<le> i \<and> nat i < length bins
          then Inr (bins[nat i := (fst (bins ! nat i), snd (bins ! nat i) + 1)])
          else Inl TypeError)"

fun count_loop :: "real \<Rightarrow> real \<Rightarrow> real list \<Rightarrow> bin list \<Rightarrow> error + bin list" where
  "count_loop minReturn binWidth [] bins = Inr bins"
| "count_loop minReturn binWidth (r # rs) bins =
     (case count_step minReturn binWidth r bins of
        Inl e \<Rightarrow> Inl e
      | Inr bins' \<Rightarrow> count_loop minReturn binWidth rs bins')"

definition histogram :: "real list \<Rightarrow> error + bin list" where
  "histogram dailyReturns =
     (let minReturn = Min (set dailyReturns);
          maxReturn = Max (set dailyReturns);
          numBins = 20;
          binWidth = (maxReturn - minReturn) / real numBins;
          bins = map (\<lambda>i. (minReturn + real i * binWidth, 0)) [0..<numBins]
      in count_loop minReturn binWidth dailyReturns bins)"

definition risk_measures :: "real list \<Rightarrow> real \<Rightarrow> real \<Rightarrow> nat \<Rightarrow> error + risk" where
  "risk_measures returns confidence horizon varIndex =
     (let dailyReturns = sort returns;
          alpha = 1 - confidence / 100
      in case histogram dailyReturns of
           Inl e \<Rightarrow> Inl e
         | Inr bins \<Rightarrow>
             Inr \<lparr>risk_returns = dailyReturns,
                  histVaR = historicalVaR varIndex horizon dailyReturns,
                  histCVaR = historicalCVaR varIndex horizon dailyReturns,
                  paraVaR = parametricVaR alpha horizon dailyReturns,
                  paraCVaR = parametricCVaR alpha horizon dailyReturns,
                  histData = bins\<rparr>)"

definition VaRCVaRModel_measures :: "real list \<Rightarrow> real \<Rightarrow> real \<Rightarrow> nat \<Rightarrow> error + risk" where
  "VaRCVaRModel_measures SP500_DATA confidence horizon varIndex =
     risk_measures (log_returns SP500_DATA) confidence horizon varIndex"

section \<open>Volatility forecaster (GarchModel)\<close>

text \<open>
  \<^verbatim>\<open>
  const omega = 0.000001; const alpha = 0.1; const beta = 0.88;
  let lastVariance = returns.reduce((acc, val) => acc + val*val, 0) / returns.length;
  const forecastDays = 60;
  for (let i = 1; i <= forecastDays; i++) {
      lastVariance = omega + alpha * (returns[returns.length - 1] ** 2) + beta * lastVariance;
      const dailyVol = Math.sqrt(lastVariance);
      const annualizedVol = dailyVol * Math.sqrt(252);
      ...
      volForecast.push({ date: dateStr, volatility: annualizedVol * 100 });
  }
  \<close>
  The return series is a parameter (it is computed from the price table). The loop state
  is \<^verbatim>\<open>lastVariance\<close>; \<open>garch_variance returns i\<close> is its value after \<open>i\<close>
  iterations, and the dates and the price cone of the chart are left out.
\<close>

definition omega :: real where "omega = 0.000001"
definition alpha :: real where "alpha = 0.1"
definition beta :: real where "beta = 0.88"
definition forecastDays :: nat where "forecastDays = 60"

definition garch_seed :: "real list \<Rightarrow> real" where
  "garch_seed returns = foldl (\<lambda>acc val. acc + val * val) 0 returns / real (length returns)"

definition garch_update :: "real list \<Rightarrow> real \<Rightarrow> real" where
  "garch_update returns lastVariance = omega + alpha * (last returns) ^ 2 + beta * lastVariance"

fun garch_variance :: "real list \<Rightarrow> nat \<Rightarrow> real" where
  "garch_variance returns 0 = garch_seed returns"
| "garch_variance returns (Suc i) = garch_update returns (garch_variance returns i)"

definition volForecast :: "real list \<Rightarrow> real list" where
  "volForecast returns =
     map (\<lambda>i. sqrt (garch_variance returns i) * sqrt 252 * 100) [1..<forecastDays + 1]"

section \<open>Path simulators\<close>

text \<open>
  \<^verbatim>\<open>randomNormal()\<close> and \<^verbatim>\<open>Math.random()\<close> read a global generator. Here the
  values they return are inputs: \<open>zs n\<close> is what the \<open>n\<close>-th call of
  \<^verbatim>\<open>randomNormal()\<close> returns and \<open>us n\<close> what the \<open>n\<close>-th direct call of
  \<^verbatim>\<open>Math.random()\<close> returns, and each simulator threads the number of calls made
  so far.

  \<^verbatim>\<open>Math.sqrt\<close> of a negative number is NaN, and NaN spreads: a sum, a product,
  \<^verbatim>\<open>Math.exp\<close> or \<^verbatim>\<open>Math.max\<close> with a NaN operand is NaN. Every simulator takes
  \<^verbatim>\<open>Math.sqrt(dt)\<close> with \<^verbatim>\<open>dt = T / steps\<close>, so the values it computes are
  \<open>real option\<close>, with \<open>None\<close> for NaN. A path point \<^verbatim>\<open>{ time, price }\<close> (or
  \<^verbatim>\<open>rate\<close>, \<^verbatim>\<open>value\<close>) is the pair of its time and its value.
\<close>

type_synonym point = "real \<times> real option"
type_synonym path = "point list"

definition js_sqrt :: "real \<Rightarrow> real option" where
  "js_sqrt x = (if x < 0 then None else Some (sqrt x))"




subsection \<open>CIR short rate (InterestRateModel.tsx)\<close>

text \<open>
  \<^verbatim>\<open>
  const generateCIRPaths = (r0, a, b, sigma, T) => {
      const steps = 252;
      const dt = T / steps;
      const paths = [];
      for (let i = 0; i < 25; i++) {
          const path = [{ time: 0, rate: r0 }];
          let currentRate = r0;
          for (let j = 1; j <= steps; j++) {
              const dW = randomNormal() * Math.sqrt(dt);
              const drift = a * (b - currentRate) * dt;
              const diffusion = sigma * Math.sqrt(Math.max(0, currentRate)) * dW;
              currentRate += drift + diffusion;
              currentRate = Math.max(0, currentRate);
              path.push({ time: j * dt, rate: currentRate });
          }
          paths.push(path);
      }
      return paths;
  };
  \<close>
\<close>

definition cir_step :: "(nat \<Rightarrow> real) \<Rightarrow> real \<Rightarrow> real \<Rightarrow> real \<Rightarrow> real \<Rightarrow> nat
    \<Rightarrow> real option \<times> path \<times> nat \<Rightarrow> real option \<times> path \<times> nat" where
  "cir_step zs a b sigma dt j = (\<lambda>(currentRate, path, k).
     (let currentRate =
            (case js_sqrt dt of
               None \<Rightarrow> None
             | Some sqrt_dt \<Rightarrow>
                 (case currentRate of
                    None \<Rightarrow> None
                  | Some rate \<Rightarrow>
                      (let dW = zs k * sqrt_dt;
                           drift = a * (b - rate) * dt;
                           diffusion = sigma * sqrt (max 0 rate) * dW;
                           rate = rate + (drift + diffusion)
                       in Some (max 0 rate))))
      in (currentRate, path @ [(real j * dt, currentRate)], k + 1)))"

definition cir_path :: "(nat \<Rightarrow> real) \<Rightarrow> real \<Rightarrow> real \<Rightarrow> real \<Rightarrow> real \<Rightarrow> real \<Rightarrow> nat
    \<Rightarrow> nat \<Rightarrow> path \<times> nat" where
  "cir_path zs r0 a b sigma dt steps k =
     (case fold (cir_step zs a b sigma dt) [1..<steps + 1] (Some r0, [(0, Some r0)], k) of
        (currentRate, path, k') \<Rightarrow> (path, k'))"

definition generateCIRPaths :: "(nat \<Rightarrow> real) \<Rightarrow> real \<Rightarrow> real \<Rightarrow> real \<Rightarrow> real \<Rightarrow> real \<Rightarrow> path list" where
  "generateCIRPaths zs r0 a b sigma T =
     (let steps = 252; dt = T / real steps
      in fst (fold (\<lambda>i (paths, k).
                 (case cir_path zs r0 a b sigma dt steps k of
                    (path, k') \<Rightarrow> (paths @ [path], k')))
               [0..<25] ([], 0)))"

text \<open>
  The \<^verbatim>\<open>chartPaths\<close> \<^verbatim>\<open>useMemo\<close> of \<^verbatim>\<open>InterestRateModel\<close>:
  \<^verbatim>\<open>
  const { r0, T, a, b, sigma } = debouncedParams;
  // Check Feller condition for positivity
  const fellerConditionMet = 2 * a * b >= sigma ** 2;
  return {
      paths: generateCIRPaths(r0 / 100, a, b / 100, sigma / 100, T),
      fellerMet: fellerConditionMet
  };
  \<close>
  \<^verbatim>\<open>r0\<close>, \<^verbatim>\<open>b\<close> and \<^verbatim>\<open>sigma\<close> are slider values in percent. The fields of
  \<^verbatim>\<open>ModelParams\<close> carry the prefix \<open>cir_\<close>.
\<close>

record ModelParams =
  cir_r0 :: real
  cir_T :: real
  cir_a :: real
  cir_b :: real
  cir_sigma :: real

definition fellerConditionMet :: "ModelParams \<Rightarrow> bool" where
  "fellerConditionMet params = (2 * cir_a params * cir_b params \<ge> (cir_sigma params) ^ 2)"

definition chartPaths :: "(nat \<Rightarrow> real) \<Rightarrow> ModelParams \<Rightarrow> path list \<times> bool" where
  "chartPaths zs params =
     (generateCIRPaths zs (cir_r0 params / 100) (cir_a params) (cir_b params / 100)
        (cir_sigma params / 100) (cir_T params),
      fellerConditionMet params)"

text \<open>
  The Feller condition of the specification, on the decimal values that
  \<^verbatim>\<open>generateCIRPaths\<close> receives.
\<close>

definition spec_feller :: "real \<Rightarrow> real \<Rightarrow> real \<Rightarrow> bool" where
  "spec_feller a_dec b_dec sigma_dec = (2 * a_dec * b_dec \<ge> sigma_dec ^ 2)"

subsection \<open>Geometric Brownian motion (MonteCarloModel)\<close>

text \<open>
  \<^verbatim>\<open>
  const generatePaths = (S0, K, T, r, sigma, steps, paths) => {
      const dt = T / steps;
      const drift = (r - 0.5 * sigma * sigma) * dt;
      const diffusion = sigma * Math.sqrt(dt);
      const allPaths = [];
      let totalPayoff = 0;
      for (let i = 0; i < paths; i++) {
          const path = [{ time: 0, price: S0 }];
          let currentPrice = S0;
          let priceSum = S0;
          for (let j = 1; j <= steps; j++) {
              currentPrice *= Math.exp(drift + diffusion * randomNormal());
              priceSum += currentPrice;
              path.push({ time: j * dt, price: currentPrice });
          }
          allPaths.push(path);
          const avgPrice = priceSum / (steps + 1);
          totalPayoff += Math.max(0, avgPrice - K);
      }
      const asianOptionPrice = (totalPayoff / paths) * Math.exp(-r * T);
      return { chartPaths: allPaths.slice(0, 25), asianOptionPrice };
  };
  \<close>
\<close>





subsection \<open>Portfolio value (PortfolioSimulator.tsx)\<close>




subsection \<open>Jump diffusion (MertonJumpDiffusionModel)\<close>



section \<open>Signal state machine (PairsTradingModel)\<close>

text \<open>
  \<^verbatim>\<open>
  const mergedData = [];
  data1.forEach(p1 => {
      const p2 = data2.find(p => p.date === p1.date);
      if (p2) { mergedData.push({ date: p1.date, price1: p1.price, price2: p2.price }); }
  });
  ...
  const tradeSignals = [];
  let inTrade = 0; // 0: no trade, 1: short spread, -1: long spread
  for (let i = 0; i < mergedData.length; i++) {
      const ratio = mergedData[i].price1 / mergedData[i].price2;
      let movingAvg = null; let movingStd = null; let zScore = null;
      if (i >= lookback -1) {
          const window = mergedData.slice(i - lookback + 1, i + 1).map(d => d.price1 / d.price2);
          const sum = window.reduce((a,b) => a + b, 0);
          movingAvg = sum / lookback;
          const variance = window.reduce((acc, val) => acc + (val - movingAvg)**2, 0) / lookback;
          movingStd = Math.sqrt(variance);
          zScore = (ratio - movingAvg) / movingStd;
          // Signal Logic
          if (inTrade === 0) {
              if (zScore > entryZ) {
                  tradeSignals.push({ date: mergedData[i].date, type: 'SHORT', z: zScore, ratio });
                  inTrade = 1;
              } else if (zScore < -entryZ) {
                  tradeSignals.push({ date: mergedData[i].date, type: 'LONG', z: zScore, ratio });
                  inTrade = -1;
              }
          } else if (inTrade === 1) { // Currently short spread
              if (zScore < exitZ) {
                  tradeSignals.push({ date: mergedData[i].date, type: 'EXIT', z: zScore, ratio });
                  inTrade = 0;
              }
          } else if (inTrade === -1) { // Currently long spread
              if (zScore > -exitZ) {
                  tradeSignals.push({ date: mergedData[i].date, type: 'EXIT', z: zScore, ratio });
                  inTrade = 0;
              }
          }
      }
      spreadAnalysisData.push({ ... });
  }
  \<close>
  The two price tables are parameters. The loop state is \<^verbatim>\<open>inTrade\<close> (a number, kept
  as an integer) and \<^verbatim>\<open>tradeSignals\<close>; the rows pushed for the chart are left out.
  \<^verbatim>\<open>lookback\<close> is a natural number, so \<^verbatim>\<open>i >= lookback - 1\<close> is
  \<open>lookback \<le> i + 1\<close>.
\<close>

record StockDataPoint =
  date :: string
  price :: real

record merged =
  mdate :: string
  price1 :: real
  price2 :: real

datatype signal_type = SHORT | LONG | EXIT

record signal =
  sdate :: string
  stype :: signal_type
  sz :: real
  sratio :: real

definition mergedData_of :: "StockDataPoint list \<Rightarrow> StockDataPoint list \<Rightarrow> merged list" where
  "mergedData_of data1 data2 =
     concat (map (\<lambda>p1. case find (\<lambda>p. date p = date p1) data2 of
                          None \<Rightarrow> []
                        | Some p2 \<Rightarrow> [\<lparr>mdate = date p1, price1 = price p1, price2 = price p2\<rparr>])
                 data1)"

definition ratio_of :: "merged \<Rightarrow> real" where
  "ratio_of d = price1 d / price2 d"

definition window :: "nat \<Rightarrow> merged list \<Rightarrow> nat \<Rightarrow> real list" where
  "window lookback mergedData i =
     map ratio_of (take ((i + 1) - (i + 1 - lookback)) (drop (i + 1 - lookback) mergedData))"

definition movingAvg :: "nat \<Rightarrow> merged list \<Rightarrow> nat \<Rightarrow> real" where
  "movingAvg lookback mergedData i =
     foldl (\<lambda>a b. a + b) 0 (window lookback mergedData i) / real lookback"

definition movingStd :: "nat \<Rightarrow> merged list \<Rightarrow> nat \<Rightarrow> real" where
  "movingStd lookback mergedData i =
     (let avg = movingAvg lookback mergedData i;
          variance = foldl (\<lambda>acc val. acc + (val - avg) ^ 2) 0 (window lookback mergedData i)
                       / real lookback
      in sqrt variance)"

definition zScore :: "nat \<Rightarrow> merged list \<Rightarrow> nat \<Rightarrow> real" where
  "zScore lookback mergedData i =
     (ratio_of (mergedData ! i) - movingAvg lookback mergedData i) / movingStd lookback mergedData i"

definition signal_logic :: "real \<Rightarrow> real \<Rightarrow> string \<Rightarrow> real \<Rightarrow> real
    \<Rightarrow> int \<times> signal list \<Rightarrow> int \<times> signal list" where
  "signal_logic entryZ exitZ d ratio zs = (\<lambda>(inTrade, tradeSignals).
     if inTrade = 0 then
       (if zs > entryZ
        then (1, tradeSignals @ [\<lparr>sdate = d, stype = SHORT, sz = zs, sratio = ratio\<rparr>])
        else if zs < - entryZ
        then (- 1, tradeSignals @ [\<lparr>sdate = d, stype = LONG, sz = zs, sratio = ratio\<rparr>])
        else (inTrade, tradeSignals))
     else if inTrade = 1 then
       (if zs < exitZ
        then (0, tradeSignals @ [\<lparr>sdate = d, stype = EXIT, sz = zs, sratio = ratio\<rparr>])
        else (inTrade, tradeSignals))
     else if inTrade = - 1 then
       (if zs > - exitZ
        then (0, tradeSignals @ [\<lparr>sdate = d, stype = EXIT, sz = zs, sratio = ratio\<rparr>])
        else (inTrade, tradeSignals))
     else (inTrade, tradeSignals))"

definition loop_body :: "nat \<Rightarrow> real \<Rightarrow> real \<Rightarrow> merged list \<Rightarrow> nat
    \<Rightarrow> int \<times> signal list \<Rightarrow> int \<times> signal list" where
  "loop_body lookback entryZ exitZ mergedData i st =
     (if lookback \<le> i + 1
      then signal_logic entryZ exitZ (mdate (mergedData ! i)) (ratio_of (mergedData ! i))
             (zScore lookback mergedData i) st
      else st)"

definition signal_loop :: "nat \<Rightarrow> real \<Rightarrow> real \<Rightarrow> merged list \<Rightarrow> int \<times> signal list" where
  "signal_loop lookback entryZ exitZ mergedData =
     fold (loop_body lookback entryZ exitZ mergedData) [0..<length mergedData] (0, [])"

definition PairsTradingModel_signals :: "nat \<Rightarrow> real \<Rightarrow> real \<Rightarrow> StockDataPoint list \<Rightarrow> StockDataPoint list
    \<Rightarrow> signal list" where
  "PairsTradingModel_signals lookback entryZ exitZ data1 data2 =
     snd (signal_loop lookback entryZ exitZ (mergedData_of data1 data2))"

text \<open>
  The state machine of the specification: three positions and a transition function
  from the position and the z-score to the next position and the event emitted, if any.
\<close>

datatype position = Flat | ShortSpread | LongSpread

fun spec_transition :: "real \<Rightarrow> real \<Rightarrow> position \<Rightarrow> real \<Rightarrow> position \<times> signal_type option" where
  "spec_transition entryZ exitZ Flat zs =
     (if zs > entryZ then (ShortSpread, Some SHORT)
      else if zs < - entryZ then (LongSpread, Some LONG)
      else (Flat, None))"
| "spec_transition entryZ exitZ ShortSpread zs =
     (if zs < exitZ then (Flat, Some EXIT) else (ShortSpread, None))"
| "spec_transition entryZ exitZ LongSpread zs =
     (if zs > - exitZ then (Flat, Some EXIT) else (LongSpread, None))"

fun inTrade_of :: "position \<Rightarrow> int" where
  "inTrade_of Flat = 0"
| "inTrade_of ShortSpread = 1"
| "inTrade_of LongSpread = - 1"

text \<open>
  A sequence of events alternates when it is Enter, Exit, Enter, Exit, ... from its
  first event on; \<open>alternates True\<close> expects an Enter next, \<open>alternates False\<close> an Exit.
\<close>

fun is_enter :: "signal_type \<Rightarrow> bool" where
  "is_enter SHORT = True"
| "is_enter LONG = True"
| "is_enter EXIT = False"

fun alternates :: "bool \<Rightarrow> signal_type list \<Rightarrow> bool" where
  "alternates expect_enter [] = True"
| "alternates expect_enter (k # ks) =
     ((if expect_enter then is_enter k else k = EXIT) \<and> alternates (\<not> expect_enter) ks)"

definition enters :: "signal list \<Rightarrow> nat" where
  "enters sigs = length (filter (\<lambda>s. is_enter (stype s)) sigs)"

definition exits :: "signal list \<Rightarrow> nat" where
  "exits sigs = length (filter (\<lambda>s. stype s = EXIT) sigs)"

text \<open>
  The signal appended for an emitted event, and nothing for none.
\<close>

definition event_of :: "string \<Rightarrow> real \<Rightarrow> real \<Rightarrow> signal_type option \<Rightarrow> signal list" where
  "event_of d ratio zs ev =
     (case ev of None \<Rightarrow> [] | Some k \<Rightarrow> [\<lparr>sdate = d, stype = k, sz = zs, sratio = ratio\<rparr>])"

text \<open>
  The loop invariant: the events so far alternate from an Enter on, and the machine is
  flat exactly when their number is even.
\<close>

definition loop_inv :: "int \<times> signal list \<Rightarrow> bool" where
  "loop_inv st = (case st of (inTrade, sigs) \<Rightarrow>
     alternates True (map stype sigs)
     \<and> (if even (length sigs) then inTrade = 0 else inTrade = 1 \<or> inTrade = - 1))"

text \<open>
  A ratio series of three days, \<open>1, 3, 1\<close>, for concrete runs with a window of two.
\<close>

definition md3 :: "merged list" where
  "md3 = [\<lparr>mdate = ''d1'', price1 = 1, price2 = 1\<rparr>,
          \<lparr>mdate = ''d2'', price1 = 3, price2 = 1\<rparr>,
          \<lparr>mdate = ''d3'', price1 = 1, price2 = 1\<rparr>]"


text \<open>
  The fixed point of \<open>garch_update\<close>.
\<close>

definition garch_limit :: "real list \<Rightarrow> real" where
  "garch_limit returns = (omega + alpha * (last returns) ^ 2) / (1 - beta)"


section \<open>Normal CDF: value at zero and reflection\<close>

lemma normalCDF_at_zero: "normalCDF 0 = 0.49999985009951"
  by (simp add: normalCDF_def normalCDF_prob_def normalCDF_t_def normalCDF_d_def)

lemma normalCDF_reflect: "x \<noteq> 0 \<Longrightarrow> normalCDF x + normalCDF (- x) = 1"
  by (auto simp add: normalCDF_def normalCDF_prob_def normalCDF_t_def normalCDF_d_def Let_def)

text \<open>
  C9, as the claim states it, fails at \<open>x = 0\<close>: there \<^verbatim>\<open>x > 0\<close> is false, the
  function returns \<^verbatim>\<open>prob\<close> itself, and the polynomial gives
  \<open>0.3989423 * 1.2533137 = 0.49999985009951\<close>, not \<open>0.5\<close>.
\<close>

theorem normalCDF_zero_counterexample: "normalCDF 0 \<noteq> 0.5"
  by (simp add: normalCDF_def normalCDF_prob_def normalCDF_t_def normalCDF_d_def)

text \<open>
  C9 (amended): \<open>normalCDF 0\<close> is \<open>0.49999985009951\<close> (within \<open>1.5e-7\<close> of one half);
  for every \<open>x \<noteq> 0\<close>, \<open>normalCDF (- x) = 1 - normalCDF x\<close> exactly; and for every \<open>x\<close>,
  zero included, \<open>normalCDF x + normalCDF (- x)\<close> is within \<open>1e-6\<close> of one.
\<close>

theorem normalCDF_symmetry_amended:
  "normalCDF 0 = 0.49999985009951
   \<and> (\<forall>x. x \<noteq> 0 \<longrightarrow> normalCDF (- x) = 1 - normalCDF x)
   \<and> (\<forall>x. \<bar>normalCDF x + normalCDF (- x) - 1\<bar> \<le> 1 / 10 ^ 6)"
proof (intro conjI allI impI)
  show "normalCDF 0 = 0.49999985009951" by (rule normalCDF_at_zero)
next
  fix x :: real assume "x \<noteq> 0"
  then show "normalCDF (- x) = 1 - normalCDF x"
    using normalCDF_reflect [of x] by simp
next
  fix x :: real
  show "\<bar>normalCDF x + normalCDF (- x) - 1\<bar> \<le> 1 / 10 ^ 6"
  proof (cases "x = 0")
    case True
    then show ?thesis by (simp add: normalCDF_at_zero)
  next
    case False
    then show ?thesis using normalCDF_reflect [of x] by simp
  qed
qed

theorem normalCDF_symmetry_amended_witness:
  "(3::real) \<noteq> 0 \<and> normalCDF (- 3) = 1 - normalCDF 3
   \<and> \<bar>normalCDF 0 + normalCDF (- 0) - 1\<bar> \<le> 1 / 10 ^ 6"
  using normalCDF_symmetry_amended by simp

section \<open>Closed-form pricer: degenerate inputs\<close>

text \<open>
  C1, as the claim states it, fails: at \<open>S = 100\<close>, \<open>K = 50\<close>, \<open>T = 0\<close> the call is
  \<open>0\<close>, not the intrinsic value \<open>50\<close>; at \<open>S = 50\<close>, \<open>K = 100\<close>, \<open>T = 0\<close> the put is
  \<open>0\<close>, not \<open>50\<close>.
\<close>

theorem degenerate_price_counterexample:
  "(0::real) \<le> 0 \<and> callPrice (BlackScholesModel_price 100 50 0 5 20) \<noteq> max 0 (100 - 50)
   \<and> putPrice (BlackScholesModel_price 50 100 0 5 20) \<noteq> max 0 (100 - 50)"
  by (simp add: BlackScholesModel_price_def)

text \<open>
  C1 (amended): for every input with \<open>T \<le> 0\<close> or \<open>\<sigma> \<le> 0\<close>, the pricer of
  \<^verbatim>\<open>BlackScholesModel\<close> returns call \<open>0\<close> and put \<open>0\<close>, and the comparison pricer
  \<^verbatim>\<open>blackScholesCall\<close> returns \<open>max 0 (S - K * exp (- r * T))\<close>; neither fails.
\<close>

theorem degenerate_price_amended:
  "T \<le> 0 \<or> sigma \<le> 0 \<Longrightarrow>
     BlackScholesModel_price S K T r sigma = \<lparr>callPrice = 0, putPrice = 0\<rparr>
     \<and> blackScholesCall S K T r sigma = max 0 (S - K * exp (- r * T))"
  by (auto simp add: BlackScholesModel_price_def blackScholesCall_def)

theorem degenerate_price_amended_witness:
  "((0::real) \<le> 0 \<or> (20::real) \<le> 0)
   \<and> BlackScholesModel_price 100 50 0 5 20 = \<lparr>callPrice = 0, putPrice = 0\<rparr>
   \<and> blackScholesCall 100 50 0 5 20 = 50"
  using degenerate_price_amended [of 0 20 100 50 5] by simp

section \<open>Lattice pricer: the no-arbitrage check\<close>

lemma crr_p_example: "crr_p 1 2 1 1 > 1"
proof -
  have e: "exp (1::real) < exp 2" by simp
  have pos: "exp (1::real) - 1 / exp 1 > 0"
    by (smt (verit) exp_gt_one divide_less_eq_1_pos exp_gt_zero)
  have "exp (2::real) - 1 / exp 1 > exp 1 - 1 / exp 1" using e by simp
  then show ?thesis using pos by (simp add: crr_p_def crr_u_def crr_d_def crr_dt_def)
qed

text \<open>
  C4: whenever the risk-neutral probability \<open>p\<close> is below \<open>0\<close> or above \<open>1\<close>,
  \<^verbatim>\<open>calculateBinomialPrice\<close> returns \<open>0\<close>; the function has no failing branch.
\<close>

theorem invalid_probability_price_zero:
  "crr_p T r sigma steps < 0 \<or> crr_p T r sigma steps > 1 \<Longrightarrow>
     calculateBinomialPrice S K T r sigma steps = 0"
  by (auto simp add: calculateBinomialPrice_def Let_def)

theorem invalid_probability_price_zero_witness:
  "(crr_p 1 2 1 1 < 0 \<or> crr_p 1 2 1 1 > 1) \<and> calculateBinomialPrice 100 105 1 2 1 1 = 0"
  using invalid_probability_price_zero [of 1 2 1 1 100 105] crr_p_example by simp

section \<open>CIR: the Feller flag\<close>

text \<open>
  C6: the flag should be the Feller condition of the decimal values passed to
  \<^verbatim>\<open>generateCIRPaths\<close>. The code evaluates it on the percent values of the sliders:
  at \<open>a = 0.3\<close>, \<open>b = 3\<close>, \<open>\<sigma> = 2\<close> the flag is false (\<open>1.8 < 4\<close>), while the decimal
  values \<open>0.3\<close>, \<open>0.03\<close>, \<open>0.02\<close> meet the condition (\<open>0.018 \<ge> 0.0004\<close>).
\<close>

theorem feller_flag_mismatch:
  "snd (chartPaths (\<lambda>n. 0) \<lparr>cir_r0 = 2, cir_T = 5, cir_a = 0.3, cir_b = 3, cir_sigma = 2\<rparr>) = False
   \<and> spec_feller 0.3 (3 / 100) (2 / 100) = True"
  by (simp add: chartPaths_def fellerConditionMet_def spec_feller_def power2_eq_square)

section \<open>Signal state machine: transitions\<close>

lemma signal_logic_refines:
  "signal_logic entryZ exitZ d ratio zs (inTrade_of st, sigs) =
     (case spec_transition entryZ exitZ st zs of
        (st', ev) \<Rightarrow> (inTrade_of st', sigs @ event_of d ratio zs ev))"
  by (cases st) (simp_all add: signal_logic_def event_of_def)

lemma md3_std1: "movingStd 2 md3 (Suc 0) = 1"
  by (simp add: movingStd_def movingAvg_def window_def md3_def ratio_of_def)

lemma md3_z1: "zScore 2 md3 (Suc 0) = 1"
  by (simp add: zScore_def movingStd_def movingAvg_def window_def md3_def ratio_of_def)

lemma md3_nth1: "mdate (md3 ! Suc 0) = ''d2''" "ratio_of (md3 ! Suc 0) = 3"
  by (simp_all add: md3_def ratio_of_def)

lemma md3_nth2: "mdate (md3 ! 2) = ''d3''" "ratio_of (md3 ! 2) = 1"
  by (simp_all add: md3_def ratio_of_def)

lemma md3_z2: "zScore 2 md3 2 = - 1"
  by (simp add: zScore_def movingStd_def movingAvg_def window_def md3_def ratio_of_def)

text \<open>
  C7: at a data point \<open>i\<close> whose window is full (\<open>lookback \<le> i + 1\<close>, with a window of
  at least one point and a non-zero moving deviation, so that the z-score is a number),
  the loop body moves the machine exactly as the transition function of the
  specification does on \<open>z = (ratio - movingAvg) / movingStd\<close>: Flat to ShortSpread with
  an Enter-Short when \<open>z > entryZ\<close>, Flat to LongSpread with an Enter-Long when
  \<open>z < - entryZ\<close>, ShortSpread to Flat with an Exit when \<open>z < exitZ\<close>, LongSpread to Flat
  with an Exit when \<open>z > - exitZ\<close>, and otherwise no change and no event. Before the
  window is full the state and the events are unchanged.
\<close>

theorem signal_transitions:
  assumes "i < length mergedData"
  shows "(1 \<le> lookback \<and> lookback \<le> i + 1 \<and> movingStd lookback mergedData i \<noteq> 0 \<longrightarrow>
            loop_body lookback entryZ exitZ mergedData i (inTrade_of st, sigs) =
              (case spec_transition entryZ exitZ st (zScore lookback mergedData i) of
                 (st', ev) \<Rightarrow>
                   (inTrade_of st',
                    sigs @ event_of (mdate (mergedData ! i)) (ratio_of (mergedData ! i))
                             (zScore lookback mergedData i) ev)))
         \<and> (\<not> lookback \<le> i + 1 \<longrightarrow>
            loop_body lookback entryZ exitZ mergedData i (inTrade_of st, sigs) = (inTrade_of st, sigs))"
  by (simp add: loop_body_def signal_logic_refines)

theorem signal_transitions_witness:
  "1 < length md3 \<and> (1::nat) \<le> 2 \<and> (2::nat) \<le> 1 + 1 \<and> movingStd 2 md3 1 \<noteq> 0
   \<and> loop_body 2 0.5 0.2 md3 1 (0, []) =
       (1, [\<lparr>sdate = ''d2'', stype = SHORT, sz = 1, sratio = 3\<rparr>])
   \<and> 0 < length md3 \<and> \<not> (2::nat) \<le> 0 + 1
   \<and> loop_body 2 0.5 0.2 md3 0 (0, []) = (0, [])"
proof -
  have l1: "1 < length md3" and l0: "0 < length md3" by (simp_all add: md3_def)
  have full: "loop_body 2 0.5 0.2 md3 1 (0, []) =
       (1, [\<lparr>sdate = ''d2'', stype = SHORT, sz = 1, sratio = 3\<rparr>])"
    using signal_transitions [OF l1, of 2 "0.5" "0.2" Flat "[]"]
    by (simp add: md3_std1 md3_z1 event_of_def md3_nth1)
  have short: "loop_body 2 0.5 0.2 md3 0 (0, []) = (0, [])"
    using signal_transitions [OF l0, of 2 "0.5" "0.2" Flat "[]"] by simp
  show ?thesis using l1 l0 full short by (simp add: md3_std1)
qed

section \<open>Signal state machine: alternation of the events\<close>

lemma alternates_snoc:
  "alternates e (ks @ [k]) =
     (alternates e ks \<and> (if e = even (length ks) then is_enter k else k = EXIT))"
  by (induction ks arbitrary: e) auto

lemma signal_logic_inv:
  "loop_inv st \<Longrightarrow> loop_inv (signal_logic entryZ exitZ d ratio zs st)"
  by (cases st) (auto simp add: loop_inv_def signal_logic_def alternates_snoc)

lemma loop_body_inv:
  "loop_inv st \<Longrightarrow> loop_inv (loop_body lookback entryZ exitZ mergedData i st)"
  by (simp add: loop_body_def signal_logic_inv)

lemma fold_loop_body_inv:
  "loop_inv st \<Longrightarrow> loop_inv (fold (loop_body lookback entryZ exitZ mergedData) is st)"
  by (induction "is" arbitrary: st) (simp_all add: loop_body_inv)

lemma signal_loop_inv: "loop_inv (signal_loop lookback entryZ exitZ mergedData)"
  unfolding signal_loop_def by (rule fold_loop_body_inv) (simp add: loop_inv_def)

lemma alternates_count:
  "(alternates True ks \<longrightarrow>
      length (filter is_enter ks) = length (filter (\<lambda>k. k = EXIT) ks) + length ks mod 2)
   \<and> (alternates False ks \<longrightarrow>
      length (filter (\<lambda>k. k = EXIT) ks) = length (filter is_enter ks) + length ks mod 2)"
proof (induction ks)
  case Nil
  then show ?case by simp
next
  case (Cons k ks)
  then show ?case by (cases k) (auto simp add: mod_Suc)
qed

lemma enters_exits_map:
  "enters sigs = length (filter is_enter (map stype sigs))"
  "exits sigs = length (filter (\<lambda>k. k = EXIT) (map stype sigs))"
  by (simp_all add: enters_def exits_def filter_map comp_def)

lemma md3_loop:
  "signal_loop 2 0.5 0.2 md3 =
     (0, [\<lparr>sdate = ''d2'', stype = SHORT, sz = 1, sratio = 3\<rparr>,
          \<lparr>sdate = ''d3'', stype = EXIT, sz = - 1, sratio = 1\<rparr>])"
proof -
  have l: "length md3 = 3" by (simp add: md3_def)
  have u: "[0..<3] = [0, 1, 2]" by (simp add: upt_rec)
  show ?thesis
    unfolding signal_loop_def l u
    by (simp add: loop_body_def md3_z1 md3_z2 signal_logic_def md3_nth1 md3_nth2)
qed

text \<open>
  C10: for every merged series and every \<open>lookback\<close>, \<open>entryZ\<close>, \<open>exitZ\<close>, the events
  that the loop emits alternate Enter, Exit, Enter, Exit, ... starting with an Enter
  (so an Exit follows an Enter immediately, and no two Enters come without an Exit
  between them), and at the end the machine is flat exactly when the number of Enter
  events equals the number of Exit events.
\<close>

theorem signals_alternate:
  "alternates True (map stype (snd (signal_loop lookback entryZ exitZ mergedData)))
   \<and> (fst (signal_loop lookback entryZ exitZ mergedData) = 0 \<longleftrightarrow>
        enters (snd (signal_loop lookback entryZ exitZ mergedData))
          = exits (snd (signal_loop lookback entryZ exitZ mergedData)))"
proof -
  obtain inTrade sigs where r: "signal_loop lookback entryZ exitZ mergedData = (inTrade, sigs)"
    by (cases "signal_loop lookback entryZ exitZ mergedData")
  have inv: "loop_inv (inTrade, sigs)"
    using signal_loop_inv [of lookback entryZ exitZ mergedData] r by simp
  then have alt: "alternates True (map stype sigs)" by (simp add: loop_inv_def)
  have cnt: "enters sigs = exits sigs + length sigs mod 2"
    using alternates_count [of "map stype sigs"] alt by (simp add: enters_exits_map)
  have "inTrade = 0 \<longleftrightarrow> even (length sigs)"
    using inv by (auto simp add: loop_inv_def split: if_splits)
  also have "\<dots> \<longleftrightarrow> enters sigs = exits sigs"
    using cnt by (cases "even (length sigs)") (auto simp add: odd_iff_mod_2_eq_one)
  finally show ?thesis using r alt by simp
qed

theorem signals_alternate_witness:
  "snd (signal_loop 2 0.5 0.2 md3) =
     [\<lparr>sdate = ''d2'', stype = SHORT, sz = 1, sratio = 3\<rparr>,
      \<lparr>sdate = ''d3'', stype = EXIT, sz = - 1, sratio = 1\<rparr>]
   \<and> alternates True (map stype (snd (signal_loop 2 0.5 0.2 md3)))
   \<and> (fst (signal_loop 2 0.5 0.2 md3) = 0 \<longleftrightarrow>
        enters (snd (signal_loop 2 0.5 0.2 md3)) = exits (snd (signal_loop 2 0.5 0.2 md3)))"
  using signals_alternate [of 2 "0.5" "0.2" md3] md3_loop by simp

section \<open>Path simulators: non-negative values\<close>










































section \<open>Volatility forecaster: the limit of the recursion\<close>

lemma garch_closed_form:
  "garch_variance returns n = garch_limit returns + beta ^ n * (garch_seed returns - garch_limit returns)"
proof (induction n)
  case 0
  then show ?case by simp
next
  case (Suc n)
  have fp: "omega + alpha * (last returns) ^ 2 + beta * garch_limit returns = garch_limit returns"
    by (simp add: garch_limit_def beta_def field_simps)
  have "garch_variance returns (Suc n) =
          omega + alpha * (last returns) ^ 2 + beta * garch_variance returns n"
    by (simp add: garch_update_def)
  also have "\<dots> = (omega + alpha * (last returns) ^ 2 + beta * garch_limit returns)
                  + beta ^ Suc n * (garch_seed returns - garch_limit returns)"
    by (simp add: Suc.IH algebra_simps)
  finally show ?case by (simp add: fp)
qed

lemma garch_converges: "garch_variance returns \<longlonglongrightarrow> garch_limit returns"
proof -
  have b: "(\<lambda>n. beta ^ n) \<longlonglongrightarrow> 0"
    by (rule LIMSEQ_power_zero) (simp add: beta_def)
  have "(\<lambda>n. garch_limit returns + beta ^ n * (garch_seed returns - garch_limit returns))
               \<longlonglongrightarrow> garch_limit returns + 0 * (garch_seed returns - garch_limit returns)"
    by (intro tendsto_add tendsto_mult tendsto_const b)
  then show ?thesis by (simp add: garch_closed_form [abs_def])
qed

lemma garch_limit_eq_unconditional:
  "(garch_limit returns = omega / (1 - alpha - beta)) = ((last returns) ^ 2 = omega / (1 - alpha - beta))"
  by (simp add: garch_limit_def omega_def alpha_def beta_def field_simps) 

text \<open>
  C5 (amended): the loop reuses the last observed return as the shock of every step, so
  from any seed the variance estimates converge to
  \<open>(\<omega> + \<alpha> * r\<^sub>l\<^sub>a\<^sub>s\<^sub>t ^ 2) / (1 - \<beta>)\<close>, and this limit is the unconditional variance
  \<open>\<omega> / (1 - \<alpha> - \<beta>)\<close> exactly when the last squared return equals that variance.
\<close>

theorem garch_limit_amended:
  "returns \<noteq> [] \<Longrightarrow>
     garch_variance returns \<longlonglongrightarrow> (omega + alpha * (last returns) ^ 2) / (1 - beta)
     \<and> ((omega + alpha * (last returns) ^ 2) / (1 - beta) = omega / (1 - alpha - beta)
          \<longleftrightarrow> (last returns) ^ 2 = omega / (1 - alpha - beta))"
  using garch_converges [of returns] garch_limit_eq_unconditional [of returns]
  by (simp add: garch_limit_def)

lemma garch_example_seed: "garch_seed [0.01, 0] = omega / (1 - alpha - beta)"
  by (simp add: garch_seed_def omega_def alpha_def beta_def)

lemma garch_example_limit: "garch_limit [0.01, 0] = 1 / 120000"
  by (simp add: garch_limit_def omega_def alpha_def beta_def)

text \<open>
  C5, as the claim states it, fails: for the returns \<open>0.01, 0\<close> the seed is the
  unconditional variance \<open>0.00005\<close> itself, the first update gives \<open>0.000045\<close>, and
  the estimates converge to \<open>1 / 120000\<close>, not to \<open>\<omega> / (1 - \<alpha> - \<beta>)\<close>.
\<close>

theorem garch_limit_counterexample:
  "garch_seed [0.01, 0] = omega / (1 - alpha - beta)
   \<and> garch_variance [0.01, 0] 1 = 0.000045
   \<and> \<not> garch_variance [0.01, 0] \<longlonglongrightarrow> omega / (1 - alpha - beta)"
proof (intro conjI)
  show "garch_seed [0.01, 0] = omega / (1 - alpha - beta)" by (rule garch_example_seed)
  show "garch_variance [0.01, 0] 1 = 0.000045"
    by (simp add: garch_update_def garch_seed_def omega_def alpha_def beta_def)
  show "\<not> garch_variance [0.01, 0] \<longlonglongrightarrow> omega / (1 - alpha - beta)"
  proof
    assume "garch_variance [0.01, 0] \<longlonglongrightarrow> omega / (1 - alpha - beta)"
    then have "omega / (1 - alpha - beta) = garch_limit [0.01, 0]"
      using garch_converges [of "[0.01, 0]"] LIMSEQ_unique by blast
    then show False using garch_example_limit by (simp add: omega_def alpha_def beta_def)
  qed
qed

theorem garch_limit_amended_witness:
  "[0.01, 0::real] \<noteq> [] \<and> garch_variance [0.01, 0] \<longlonglongrightarrow> 1 / 120000"
  using garch_limit_amended [of "[0.01, 0]"] by (simp add: omega_def alpha_def beta_def)

section \<open>Risk engine: CVaR against VaR\<close>





























section \<open>Lattice pricer: backward induction\<close>

lemma payoff_fold:
  "n \<le> length ps \<Longrightarrow>
     fold (\<lambda>i ps. ps[i := f i]) [0..<n] ps = map f [0..<n] @ drop n ps"
proof (induction n)
  case 0
  then show ?case by simp
next
  case (Suc n)
  then have n: "n < length ps" by simp
  have "fold (\<lambda>i ps. ps[i := f i]) [0..<Suc n] ps = (map f [0..<n] @ drop n ps)[n := f n]"
    using Suc by simp
  also have "\<dots> = map f [0..<n] @ (drop n ps)[0 := f n]"
    by (simp add: list_update_append)
  also have "(drop n ps)[0 := f n] = f n # drop (Suc n) ps"
    using n by (simp add: Cons_nth_drop_Suc [symmetric])
  finally show ?case by simp
qed

lemma payoff_loop_terminal:
  "length prices = steps + 1 \<Longrightarrow> payoff_loop S K u d steps prices = spec_terminal S K u d steps"
  unfolding payoff_loop_def spec_terminal_def
  by (subst payoff_fold) simp_all

lemma inner_fold:
  "k < length ps \<Longrightarrow>
     fold (\<lambda>i ps. ps[i := (p * ps ! i + (1 - p) * ps ! (i + 1)) * disc]) [0..<k] ps
       = map (\<lambda>i. (p * ps ! i + (1 - p) * ps ! (i + 1)) * disc) [0..<k] @ drop k ps"
proof (induction k)
  case 0
  then show ?case by simp
next
  case (Suc k)
  let ?A = "map (\<lambda>i. (p * ps ! i + (1 - p) * ps ! (i + 1)) * disc) [0..<k]"
  have k: "k < length ps" "Suc k < length ps" using Suc.prems by simp_all
  have at_k: "(?A @ drop k ps) ! k = ps ! k"
    using k by (simp add: nth_append)
  have at_Sk: "(?A @ drop k ps) ! (k + 1) = ps ! (k + 1)"
    using k by (simp add: nth_append)
  have "fold (\<lambda>i ps. ps[i := (p * ps ! i + (1 - p) * ps ! (i + 1)) * disc]) [0..<Suc k] ps
          = (?A @ drop k ps)[k := (p * (?A @ drop k ps) ! k + (1 - p) * (?A @ drop k ps) ! (k + 1)) * disc]"
    using Suc.IH [OF k(1)] by simp
  also have "\<dots> = (?A @ drop k ps)[k := (p * ps ! k + (1 - p) * ps ! (k + 1)) * disc]"
    by (simp only: at_k at_Sk)
  also have "\<dots> = ?A @ (drop k ps)[0 := (p * ps ! k + (1 - p) * ps ! (k + 1)) * disc]"
    by (simp add: list_update_append)
  also have "(drop k ps)[0 := (p * ps ! k + (1 - p) * ps ! (k + 1)) * disc]
               = (p * ps ! k + (1 - p) * ps ! (k + 1)) * disc # drop (Suc k) ps"
    using k(1) by (simp add: Cons_nth_drop_Suc [symmetric])
  finally show ?case by simp
qed

lemma spec_layer_map:
  "spec_layer p disc xs = map (\<lambda>i. (p * xs ! i + (1 - p) * xs ! (i + 1)) * disc) [0..<length xs - 1]"
proof (induction p disc xs rule: spec_layer.induct)
  case (1 p disc child_up child_down rest)
  have "[0..<length (child_up # child_down # rest) - 1] = 0 # map Suc [0..<length (child_down # rest) - 1]"
    by (simp add: upt_conv_Cons map_Suc_upt del: upt_Suc)
  then show ?case using 1 by (simp add: comp_def mult.commute del: upt_Suc)
qed simp_all

lemma length_induction_inner: "length (induction_inner p disc j ps) = length ps"
proof -
  have "length (fold (\<lambda>i ps. ps[i := (p * ps ! i + (1 - p) * ps ! (i + 1)) * disc]) is ps) = length ps" for "is"
    by (induction "is" arbitrary: ps) simp_all
  then show ?thesis by (simp add: induction_inner_def del: upt_Suc)
qed

lemma induction_inner_layer:
  assumes "j + 1 < length ps"
  shows "take (j + 1) (induction_inner p disc j ps) = spec_layer p disc (take (j + 2) ps)"
proof -
  have "induction_inner p disc j ps
          = map (\<lambda>i. (p * ps ! i + (1 - p) * ps ! (i + 1)) * disc) [0..<j + 1] @ drop (j + 1) ps"
    unfolding induction_inner_def by (rule inner_fold [OF assms])
  then have "take (j + 1) (induction_inner p disc j ps)
          = map (\<lambda>i. (p * ps ! i + (1 - p) * ps ! (i + 1)) * disc) [0..<j + 1]"
    by (simp del: upt_Suc)
  also have "\<dots> = map (\<lambda>i. (p * take (j + 2) ps ! i + (1 - p) * take (j + 2) ps ! (i + 1)) * disc) [0..<j + 1]"
    by (rule map_cong) auto
  also have "\<dots> = spec_layer p disc (take (j + 2) ps)"
  proof -
    have l: "length (take (j + 2) ps) - 1 = j + 1" using assms by simp
    show ?thesis by (simp only: spec_layer_map l)
  qed
  finally show ?thesis .
qed

lemma induction_outer_layers:
  "m < length ps \<Longrightarrow>
     take 1 (induction_outer p disc m ps) = (spec_layer p disc ^^ m) (take (m + 1) ps)"
proof (induction m arbitrary: ps)
  case 0
  then show ?case by (simp add: induction_outer_def)
next
  case (Suc m)
  have len: "m < length (induction_inner p disc m ps)"
    using Suc.prems by (simp add: length_induction_inner)
  have "induction_outer p disc (Suc m) ps = induction_outer p disc m (induction_inner p disc m ps)"
    by (simp add: induction_outer_def)
  then have "take 1 (induction_outer p disc (Suc m) ps)
          = (spec_layer p disc ^^ m) (take (m + 1) (induction_inner p disc m ps))"
    using Suc.IH [OF len] by simp
  also have "take (m + 1) (induction_inner p disc m ps) = spec_layer p disc (take (m + 2) ps)"
    using Suc.prems by (intro induction_inner_layer) simp
  finally show ?case by (simp add: funpow_swap1)
qed

lemma length_induction_outer: "length (induction_outer p disc m ps) = length ps"
proof -
  have "length (fold (induction_inner p disc) js ps) = length ps" for js
    by (induction js arbitrary: ps) (simp_all add: length_induction_inner)
  then show ?thesis by (simp add: induction_outer_def)
qed

lemma lattice_core:
  "induction_outer p disc steps (payoff_loop S K u d steps (replicate (steps + 1) 0)) ! 0
     = hd ((spec_layer p disc ^^ steps) (spec_terminal S K u d steps))"
proof -
  let ?t = "spec_terminal S K u d steps"
  have pl: "payoff_loop S K u d steps (replicate (steps + 1) 0) = ?t"
    by (rule payoff_loop_terminal) simp
  have lt: "length ?t = steps + 1" by (simp add: spec_terminal_def)
  have "take 1 (induction_outer p disc steps ?t) = (spec_layer p disc ^^ steps) (take (steps + 1) ?t)"
    by (rule induction_outer_layers) (simp add: lt)
  then have "take 1 (induction_outer p disc steps ?t) = (spec_layer p disc ^^ steps) ?t"
    by (simp add: lt)
  moreover have "induction_outer p disc steps ?t \<noteq> []"
    using length_induction_outer [of p disc steps ?t] lt by auto
  ultimately have "induction_outer p disc steps ?t ! 0 = hd ((spec_layer p disc ^^ steps) ?t)"
    by (metis hd_conv_nth hd_take zero_less_one)
  then show ?thesis by (simp only: pl)
qed

text \<open>
  C3: for every step count \<open>n \<ge> 1\<close> and parameters whose up and down factors differ and
  whose risk-neutral probability lies in \<open>[0, 1]\<close>, the price that
  \<^verbatim>\<open>calculateBinomialPrice\<close> computes in place in one array is the root of the
  backward induction of the specification: the \<open>n + 1\<close> terminal payoffs
  \<open>max 0 (S * u ^ (n - i) * d ^ i - K)\<close>, then \<open>n\<close> times the layer of discounted weighted
  averages \<open>exp (- r * dt) * (p * child_up + (1 - p) * child_down)\<close>, with no comparison
  against an exercise value.
\<close>

theorem lattice_is_backward_induction:
  assumes "1 \<le> steps" and "crr_u sigma T steps \<noteq> crr_d sigma T steps"
    and "0 \<le> crr_p T r sigma steps" and "crr_p T r sigma steps \<le> 1"
  shows "calculateBinomialPrice S K T r sigma steps = spec_lattice_price S K T r sigma steps"
proof -
  have inside: "\<not> (crr_p T r sigma steps < 0 \<or> crr_p T r sigma steps > 1)"
    using assms(3,4) by simp
  show ?thesis
    unfolding calculateBinomialPrice_def spec_lattice_price_def Let_def
    by (simp only: inside if_False lattice_core)
qed


lemma crr_example:
  "crr_u 1 2 2 \<noteq> crr_d 1 2 2" "0 \<le> crr_p 2 0 1 2" "crr_p 2 0 1 2 \<le> 1"
proof -
  have e: "1 < exp (1::real)" by simp
  then have inv: "1 / exp (1::real) < 1" by simp
  have u: "crr_u 1 2 2 = exp 1" by (simp add: crr_u_def crr_dt_def)
  have d: "crr_d 1 2 2 = 1 / exp 1" by (simp add: crr_d_def u)
  have p: "crr_p 2 0 1 2 = (1 - 1 / exp 1) / (exp 1 - 1 / exp 1)"
    by (simp only: crr_p_def u d) (simp add: crr_dt_def)
  show "crr_u 1 2 2 \<noteq> crr_d 1 2 2" unfolding u d using e inv by linarith
  have num: "0 \<le> 1 - 1 / exp (1::real)" using inv by simp
  have den: "0 < exp (1::real) - 1 / exp 1" using e inv by linarith
  show "0 \<le> crr_p 2 0 1 2" unfolding p using num den by (rule divide_nonneg_pos)
  have "1 - 1 / exp (1::real) \<le> exp 1 - 1 / exp 1" using e by simp
  then show "crr_p 2 0 1 2 \<le> 1" unfolding p using den by (simp only: divide_le_eq_1_pos)
qed

theorem lattice_is_backward_induction_witness:
  "(1::nat) \<le> 2 \<and> crr_u 1 2 2 \<noteq> crr_d 1 2 2 \<and> 0 \<le> crr_p 2 0 1 2 \<and> crr_p 2 0 1 2 \<le> 1
   \<and> calculateBinomialPrice 100 105 2 0 1 2 = spec_lattice_price 100 105 2 0 1 2"
  using lattice_is_backward_induction [of 2 1 2 0 100 105] crr_example by simp

end
